theory Spec2Isabelle
  imports Main "HOL-Library.Sublist"
begin

section \<open>Text values\<close>

text \<open>
  A JavaScript string is a sequence of UTF-16 code units and \<open>length\<close> counts them.
  The model uses HOL strings: one \<open>char\<close> stands for one code unit with a value in
  0..255 (the Latin-1 range), so every statement below speaks about texts over that range.
\<close>

text \<open>
  \<open>String.prototype.trim\<close> strips white space and line terminators from both ends.
  In the range 0..255 these are TAB, LF, VT, FF, CR, SPACE and NBSP (U+00A0).
\<close>

definition is_js_whitespace :: "char \<Rightarrow> bool" where
  "is_js_whitespace c \<longleftrightarrow> (of_char c :: nat) \<in> {9, 10, 11, 12, 13, 32, 160}"

definition trim :: "string \<Rightarrow> string" where
  "trim s = rev (dropWhile is_js_whitespace (rev (dropWhile is_js_whitespace s)))"

section \<open>The row store\<close>

text \<open>
  Table \<open>items\<close>: \<open>id INTEGER PRIMARY KEY AUTOINCREMENT, name TEXT NOT NULL,
  description TEXT, category TEXT\<close>. A nullable column is an option.
\<close>

record item =
  item_id :: nat
  name :: string
  description :: "string option"
  category :: "string option"

definition seedData :: "(string \<times> string \<times> string) list" where
  "seedData =
    [(''Apple iPhone 15'', ''Latest smartphone from Apple'', ''Electronics''),
     (''Samsung Galaxy S23'', ''High-end Android smartphone'', ''Electronics''),
     (''Sony WH-1000XM5'', ''Noise-canceling headphones'', ''Audio''),
     (''MacBook Pro 14'', ''Powerful laptop for professionals'', ''Computing''),
     (''Dell XPS 13'', ''Compact and powerful ultrabook'', ''Computing''),
     (''Nintendo Switch'', ''Hybrid gaming console'', ''Gaming''),
     (''PlayStation 5'', ''Next-gen gaming console'', ''Gaming''),
     (''Logitech MX Master 3S'', ''Ergonomic productivity mouse'', ''Accessories''),
     (''Keychron K2'', ''Mechanical wireless keyboard'', ''Accessories''),
     (''Kindle Paperwhite'', ''E-reader for book lovers'', ''Electronics'')]"

text \<open>
  \<open>insert.run(item[0], item[1], item[2])\<close> appends a row; on the table the seeding
  starts from (it is empty) the auto-assigned id is the row's position, counted from 1.
\<close>

definition insert_run :: "item list \<Rightarrow> string \<times> string \<times> string \<Rightarrow> item list" where
  "insert_run tbl r =
     tbl @ [\<lparr>item_id = Suc (length tbl), name = fst r,
             description = Some (fst (snd r)), category = Some (snd (snd r))\<rparr>]"

text \<open>\<open>if (count.count === 0) seedData.forEach(item => insert.run(...))\<close>\<close>

definition seed :: "item list \<Rightarrow> item list" where
  "seed tbl = (if length tbl = 0 then foldl insert_run tbl seedData else tbl)"

definition seeded_items :: "item list" where
  "seeded_items = seed []"

subsection \<open>The LIKE operator\<close>

text \<open>
  SQLite's \<open>LIKE\<close>, with no \<open>ESCAPE\<close> clause as in the statement of the handler:
  \<open>%\<close> in the pattern matches any sequence of zero or more characters, \<open>_\<close> matches
  any single character, any other character matches itself or its other-case
  equivalent, where case is understood for ASCII letters only.
\<close>

definition ascii_lower :: "char \<Rightarrow> char" where
  "ascii_lower c =
     (let n = (of_char c :: nat) in if 65 \<le> n \<and> n \<le> 90 then char_of (n + 32) else c)"

fun like :: "string \<Rightarrow> string \<Rightarrow> bool" where
  "like [] s = (s = [])"
| "like (p # ps) [] = (p = CHR ''%'' \<and> like ps [])"
| "like (p # ps) (c # cs) =
     (if p = CHR ''%'' then like ps (c # cs) \<or> like (p # ps) cs
      else (p = CHR ''_'' \<or> ascii_lower p = ascii_lower c) \<and> like ps cs)"

text \<open>
  \<open>name LIKE ?1 OR description LIKE ?2\<close> on one row. \<open>NULL LIKE p\<close> is NULL, and
  a row whose \<open>WHERE\<close> value is NULL is not selected.
\<close>

definition row_selected :: "string \<Rightarrow> string \<Rightarrow> item \<Rightarrow> bool" where
  "row_selected p1 p2 r \<longleftrightarrow>
     like p1 (name r) \<or> (case description r of None \<Rightarrow> False | Some d \<Rightarrow> like p2 d)"

text \<open>
  The reference matching policy, in the words of the specification: a row matches when
  the text appears anywhere in \<open>name\<close> or anywhere in \<open>description\<close>, as a literal
  substring compared without regard to the case of ASCII letters.
\<close>

definition literal_substring :: "string \<Rightarrow> string \<Rightarrow> bool" where
  "literal_substring t s \<longleftrightarrow> sublist (map ascii_lower t) (map ascii_lower s)"

definition literal_match :: "string \<Rightarrow> item \<Rightarrow> bool" where
  "literal_match t r \<longleftrightarrow>
     literal_substring t (name r) \<or>
     (case description r of None \<Rightarrow> False | Some d \<Rightarrow> literal_substring t d)"

subsection \<open>The database handle\<close>

text \<open>
  The handle opened at start-up. \<open>rows\<close> is the table in the store's default (rowid)
  order. \<open>fault\<close> is the error the driver raises when a statement is prepared or run
  while the storage layer is broken (file locked, table dropped, I/O error); \<open>None\<close>
  when it is healthy.
\<close>

record database =
  rows :: "item list"
  fault :: "string option"

definition search_sql :: string where
  "search_sql = ''SELECT * FROM items WHERE name LIKE ? OR description LIKE ? LIMIT 5''"

text \<open>
  \<open>db.prepare(search_sql).all(p1, p2)\<close>: raises the driver's error, or returns the
  first five selected rows.
\<close>

definition stmt_all :: "database \<Rightarrow> string \<Rightarrow> string \<Rightarrow> string + item list" where
  "stmt_all db p1 p2 =
     (case fault db of
        Some e \<Rightarrow> Inl e
      | None \<Rightarrow> Inr (take 5 (filter (row_selected p1 p2) (rows db))))"

text \<open>The store after start-up on a fresh database file, in working order.\<close>

definition seeded_db :: database where
  "seeded_db = \<lparr>rows = seeded_items, fault = None\<rparr>"

section \<open>HTTP responses and observable effects\<close>

datatype json = JArray "item list" | JObject "(string \<times> string) list" | JRaw string

text \<open>
  A JavaScript value of the kinds that reach \<open>res.status\<close> here: \<open>undefined\<close>, a
  number or a string.
\<close>

datatype js_value = Undefined | Num nat | Str string

text \<open>
  A response: \<open>status\<close> is the value the handler passed to \<open>res.status\<close>, the
  number 200 when it called \<open>res.json\<close> alone; \<open>body\<close> is the argument of \<open>res.json\<close>.
\<close>

record response =
  status :: js_value
  body :: json

text \<open>
  What a handler does besides answering: statements run on the store, lines written to
  the server log, the signed-assertion client it builds and the outbound calls it makes.
\<close>

record jwt_options =
  email :: string
  key :: string
  scopes :: "string list"

datatype effect =
    StoreQuery string "string list"
  | ConsoleError string string
  | JwtCreated jwt_options
  | SheetsGet jwt_options string string

text \<open>
  A handler's outcome: \<open>Inr\<close> the response it sent, \<open>Inl\<close> an exception that left the
  handler uncaught.
\<close>

type_synonym outcome = "(string + response) \<times> effect list"

section \<open>The suggestion endpoint\<close>

text \<open>
  \<open>app.get("/api/search", ...)\<close>. The argument is \<open>req.query.q\<close>, \<open>None\<close> when the
  parameter is absent. \<open>!query\<close> holds for an absent and for an empty text.
\<close>

definition search_handler :: "database \<Rightarrow> string option \<Rightarrow> outcome" where
  "search_handler db q =
     (case q of
        None \<Rightarrow> (Inr \<lparr>status = Num 200, body = JArray []\<rparr>, [])
      | Some query \<Rightarrow>
          if query = [] \<or> length query < 2 then (Inr \<lparr>status = Num 200, body = JArray []\<rparr>, [])
          else
            (case stmt_all db (''%'' @ query @ ''%'') (''%'' @ query @ ''%'') of
               Inr results \<Rightarrow>
                 (Inr \<lparr>status = Num 200, body = JArray results\<rparr>,
                  [StoreQuery search_sql [''%'' @ query @ ''%'', ''%'' @ query @ ''%'']])
             | Inl error \<Rightarrow>
                 (Inr \<lparr>status = Num 500, body = JObject [(''error'', ''Internal server error'')]\<rparr>,
                  [StoreQuery search_sql [''%'' @ query @ ''%'', ''%'' @ query @ ''%''],
                   ConsoleError ''Search error:'' error])))"

text \<open>The rows a response carries: the elements of its JSON array, if it is one.\<close>

definition returned_rows :: "outcome \<Rightarrow> item list" where
  "returned_rows out =
     (case fst out of
        Inr r \<Rightarrow> (case body r of JArray xs \<Rightarrow> xs | _ \<Rightarrow> [])
      | Inl _ \<Rightarrow> [])"

section \<open>The spreadsheet proxy endpoint\<close>

text \<open>\<open>privateKey.replace(/\\n/g, "\n")\<close>: every backslash followed by \<open>n\<close> becomes a line feed.\<close>

fun replace_escaped_newlines :: "string \<Rightarrow> string" where
  "replace_escaped_newlines (a # b # r) =
     (if a = CHR 0x5C \<and> b = CHR ''n'' then CHR 0x0A # replace_escaped_newlines r
      else a # replace_escaped_newlines (b # r))"
| "replace_escaped_newlines s = s"

text \<open>
  \<open>!v\<close> for a value that is \<open>undefined\<close> or a string: true when it is \<open>undefined\<close>
  or the empty string.
\<close>

definition falsy :: "string option \<Rightarrow> bool" where
  "falsy v \<longleftrightarrow> (case v of None \<Rightarrow> True | Some s \<Rightarrow> s = [])"

text \<open>
  What the \<open>catch\<close> clause receives (\<open>error: any\<close>), as far as the handler reads it:
  \<open>error.code\<close> and \<open>error.message\<close>. For a rejected request the client library
  sets \<open>code\<close> to the upstream status, a number; a failure below HTTP carries the
  platform's symbolic code, a string such as \<open>ENOTFOUND\<close>, or none at all.
\<close>

record js_error =
  code :: js_value
  message :: string

text \<open>
  \<open>error.code || 500\<close>: the left operand unless it is falsy (\<open>undefined\<close>, the number 0
  or the empty string), then the default.
\<close>

definition code_or :: "js_value \<Rightarrow> nat \<Rightarrow> js_value" where
  "code_or c d =
     (case c of
        Undefined \<Rightarrow> Num d
      | Num n \<Rightarrow> if n = 0 then Num d else Num n
      | Str t \<Rightarrow> if t = [] then Num d else Str t)"

text \<open>
  The external service seen through \<open>sheets.spreadsheets.values.get\<close>: given the
  assertion client, the spreadsheet id and the range, it throws or returns
  \<open>response.data\<close> (kept as opaque text).
\<close>

type_synonym sheets_api = "jwt_options \<Rightarrow> string \<Rightarrow> string \<Rightarrow> js_error + string"

definition config_error_body :: json where
  "config_error_body =
     JObject [(''error'', ''Google Service Account credentials not configured on server.''),
              (''details'',
               ''Please ensure GOOGLE_SERVICE_ACCOUNT_EMAIL and GOOGLE_PRIVATE_KEY are set.'')]"

definition upstream_error_body :: "js_error \<Rightarrow> json" where
  "upstream_error_body error =
     JObject [(''error'', ''Failed to fetch data from Google Sheets.''),
              (''message'', message error)]"

text \<open>
  \<open>app.get("/api/sheets/:spreadsheetId/:range", ...)\<close>; \<open>env\<close> is \<open>process.env\<close>.
\<close>

definition sheets_handler ::
  "(string \<rightharpoonup> string) \<Rightarrow> sheets_api \<Rightarrow> string \<Rightarrow> string \<Rightarrow> outcome" where
  "sheets_handler env api spreadsheetId range_arg =
     (let clientEmail = env ''GOOGLE_SERVICE_ACCOUNT_EMAIL'';
          privateKey = map_option replace_escaped_newlines (env ''GOOGLE_PRIVATE_KEY'')
      in if falsy clientEmail \<or> falsy privateKey
         then (Inr \<lparr>status = Num 500, body = config_error_body\<rparr>, [])
         else
           (case (clientEmail, privateKey) of
              (Some e, Some k) \<Rightarrow>
                (let auth = \<lparr>email = e, key = k,
                             scopes = [''https://www.googleapis.com/auth/spreadsheets.readonly'']\<rparr>
                 in case api auth spreadsheetId range_arg of
                      Inr data \<Rightarrow>
                        (Inr \<lparr>status = Num 200, body = JRaw data\<rparr>,
                         [JwtCreated auth, SheetsGet auth spreadsheetId range_arg])
                    | Inl error \<Rightarrow>
                        (Inr \<lparr>status = code_or (code error) 500,
                              body = upstream_error_body error\<rparr>,
                         [JwtCreated auth, SheetsGet auth spreadsheetId range_arg,
                          ConsoleError ''Sheets proxy error:'' (message error)]))
            | _ \<Rightarrow> (Inr \<lparr>status = Num 500, body = config_error_body\<rparr>, [])))"

text \<open>
  A configuration with both credentials, the key with an escaped line break as it is
  written on one line, and an external service that rejects every call with
  \<open>404 Range not found\<close>.
\<close>

definition example_env :: "string \<rightharpoonup> string" where
  "example_env =
     [''GOOGLE_SERVICE_ACCOUNT_EMAIL'' \<mapsto> ''svc@example.iam.gserviceaccount.com'',
      ''GOOGLE_PRIVATE_KEY'' \<mapsto> ''KEY'' @ [CHR 0x5C] @ ''nEND'']"

definition not_found_api :: sheets_api where
  "not_found_api auth spreadsheetId range_arg =
     Inl \<lparr>code = Num 404, message = ''Range not found''\<rparr>"


section \<open>The request URL of the client\<close>

text \<open>
  \<open>encodeURIComponent\<close>: a code unit of the unreserved set (letters, digits and
  \<open>- _ . ! ~ * ' ( )\<close>) is kept; any other is replaced by the octets of its UTF-8
  encoding, each written as \<open>%\<close> and two upper-case hexadecimal digits.
\<close>

definition uriUnreserved :: "char \<Rightarrow> bool" where
  "uriUnreserved c \<longleftrightarrow>
     c \<in> set (''ABCDEFGHIJKLMNOPQRSTUVWXYZabcdefghijklmnopqrstuvwxyz0123456789-_.!~*()''
               @ [CHR 0x27])"

definition hex_digit :: "nat \<Rightarrow> char" where
  "hex_digit n = ''0123456789ABCDEF'' ! (n mod 16)"

definition percent_octet :: "nat \<Rightarrow> string" where
  "percent_octet b = [CHR ''%'', hex_digit (b div 16), hex_digit (b mod 16)]"

definition utf8_octets :: "nat \<Rightarrow> nat list" where
  "utf8_octets cp =
     (if cp < 128 then [cp]
      else if cp < 2048 then [192 + cp div 64, 128 + cp mod 64]
      else if cp < 65536 then [224 + cp div 4096, 128 + cp div 64 mod 64, 128 + cp mod 64]
      else [240 + cp div 262144, 128 + cp div 4096 mod 64, 128 + cp div 64 mod 64,
            128 + cp mod 64])"

definition encode_unit :: "char \<Rightarrow> string" where
  "encode_unit c =
     (if uriUnreserved c then [c] else concat (map percent_octet (utf8_octets (of_char c))))"

definition encodeURIComponent :: "string \<Rightarrow> string" where
  "encodeURIComponent s = concat (map encode_unit s)"

text \<open>The argument of \<open>fetch\<close>: \<open>`/api/search?q=${encodeURIComponent(query)}`\<close>.\<close>

definition fetch_url :: "string \<Rightarrow> string" where
  "fetch_url query = ''/api/search?q='' @ encodeURIComponent query"

subsection \<open>How the receiving side reads the URL\<close>









section \<open>The client: search box state and debounce timer\<close>

text \<open>
  The component's state hooks, and next to them what the browser holds for it: the one
  pending timeout of the effect (its due time and the \<open>query\<close> its closure captured),
  the clock, the URLs handed to \<open>fetch\<close> so far (oldest first) and the number of
  fetches still awaiting their response.
\<close>

record client =
  query :: string
  suggestions :: "item list"
  isLoading :: bool
  showSuggestions :: bool
  selectedItem :: "item option"
  timer :: "(nat \<times> string) option"
  now :: nat
  requests :: "string list"
  inflight :: nat

text \<open>After the first render: the effect has run once and armed the timer.\<close>

definition mounted :: client where
  "mounted = \<lparr>query = [], suggestions = [], isLoading = False, showSuggestions = False,
              selectedItem = None, timer = Some (300, []), now = 0, requests = [],
              inflight = 0\<rparr>"

text \<open>
  \<open>setQuery(v)\<close> followed by the render it causes. Setting the value the state already
  has changes nothing and the effect, whose dependency is \<open>[query]\<close>, does not run.
  Otherwise the clean-up of the previous effect clears its timeout and the effect arms
  a new one: \<open>setTimeout(fetchSuggestions, 300)\<close>.
\<close>

definition setQuery :: "string \<Rightarrow> client \<Rightarrow> client" where
  "setQuery v s = (if v = query s then s else s\<lparr>query := v, timer := Some (now s + 300, v)\<rparr>)"

text \<open>
  \<open>fetchSuggestions\<close> up to its \<open>await fetch(...)\<close>, for the \<open>query\<close> of its closure.
\<close>

definition fetchSuggestions :: "string \<Rightarrow> client \<Rightarrow> client" where
  "fetchSuggestions q s =
     (if length (trim q) < 2 then s\<lparr>suggestions := []\<rparr>
      else s\<lparr>isLoading := True, requests := requests s @ [fetch_url q],
             inflight := Suc (inflight s)\<rparr>)"

text \<open>
  The rest of \<open>fetchSuggestions\<close>, run when a fetch settles: an ok response with its
  parsed rows, a response that is not ok, or a rejected fetch.
\<close>

datatype fetch_result = Ok "item list" | NotOk | Rejected

definition settle :: "fetch_result \<Rightarrow> client \<Rightarrow> client" where
  "settle r s =
     (if inflight s = 0 then s
      else
        (case r of
           Ok data \<Rightarrow> s\<lparr>suggestions := data, showSuggestions := True, isLoading := False,
                         inflight := inflight s - 1\<rparr>
         | _ \<Rightarrow> s\<lparr>isLoading := False, inflight := inflight s - 1\<rparr>))"

definition handleSelectSuggestion :: "item \<Rightarrow> client \<Rightarrow> client" where
  "handleSelectSuggestion item s =
     (setQuery (name item) (s\<lparr>selectedItem := Some item\<rparr>))\<lparr>showSuggestions := False\<rparr>"

text \<open>Time passes: the clock advances and a timeout that has become due runs.\<close>

definition elapse :: "nat \<Rightarrow> client \<Rightarrow> client" where
  "elapse d s =
     (case timer s of
        None \<Rightarrow> s\<lparr>now := now s + d\<rparr>
      | Some (due, q) \<Rightarrow>
          if due \<le> now s + d then fetchSuggestions q (s\<lparr>now := now s + d, timer := None\<rparr>)
          else s\<lparr>now := now s + d\<rparr>)"

datatype event =
    Change string
  | Focus
  | ClickOutside
  | Select item
  | Elapse nat
  | Settle fetch_result

fun step :: "client \<Rightarrow> event \<Rightarrow> client" where
  "step s (Change v) = setQuery v s"
| "step s Focus = (if 2 \<le> length (query s) then s\<lparr>showSuggestions := True\<rparr> else s)"
| "step s ClickOutside = s\<lparr>showSuggestions := False\<rparr>"
| "step s (Select item) = handleSelectSuggestion item s"
| "step s (Elapse d) = elapse d s"
| "step s (Settle r) = settle r s"

definition run :: "client \<Rightarrow> event list \<Rightarrow> client" where
  "run s es = foldl step s es"

text \<open>
  A burst of input changes: the first value, then pairs of the time since the previous
  change and the next value.
\<close>

fun burst :: "string \<Rightarrow> (nat \<times> string) list \<Rightarrow> event list" where
  "burst v [] = [Change v]"
| "burst v ((d, w) # r) = Change v # Elapse d # burst w r"

section \<open>Facts about LIKE\<close>









subsection \<open>Evaluating the store on literal texts\<close>

text \<open>
  Equations that let the simplifier run \<open>ascii_lower\<close>, \<open>like\<close> and the seeding on
  literals: case folding read off the bits of a character, and \<open>like\<close> with its
  alternatives tried one after the other.
\<close>

lemma ascii_lower_Char:
  "ascii_lower (Char b0 b1 b2 b3 b4 b5 b6 b7) =
     (if \<not> b7 \<and> b6 \<and> \<not> b5 \<and> (b0 \<or> b1 \<or> b2 \<or> b3 \<or> b4) \<and> \<not> (b4 \<and> b3 \<and> (b2 \<or> b1 \<and> b0))
      then Char b0 b1 b2 b3 b4 True b6 b7 else Char b0 b1 b2 b3 b4 b5 b6 b7)"
  by (cases b0; cases b1; cases b2; cases b3; cases b4; cases b5; cases b6; cases b7;
      simp add: ascii_lower_def char_of_def bit_Suc_0_iff)

lemma like_Cons_if:
  "like (p # ps) (c # cs) =
     (if p = CHR ''%'' then (if like ps (c # cs) then True else like (p # ps) cs)
      else if p = CHR ''_'' then like ps cs
      else if ascii_lower p = ascii_lower c then like ps cs else False)"
  by simp

lemma seeded_items_eq:
  "seeded_items =
    [\<lparr>item_id = 1, name = ''Apple iPhone 15'',
      description = Some ''Latest smartphone from Apple'', category = Some ''Electronics''\<rparr>,
     \<lparr>item_id = 2, name = ''Samsung Galaxy S23'',
      description = Some ''High-end Android smartphone'', category = Some ''Electronics''\<rparr>,
     \<lparr>item_id = 3, name = ''Sony WH-1000XM5'',
      description = Some ''Noise-canceling headphones'', category = Some ''Audio''\<rparr>,
     \<lparr>item_id = 4, name = ''MacBook Pro 14'',
      description = Some ''Powerful laptop for professionals'', category = Some ''Computing''\<rparr>,
     \<lparr>item_id = 5, name = ''Dell XPS 13'',
      description = Some ''Compact and powerful ultrabook'', category = Some ''Computing''\<rparr>,
     \<lparr>item_id = 6, name = ''Nintendo Switch'',
      description = Some ''Hybrid gaming console'', category = Some ''Gaming''\<rparr>,
     \<lparr>item_id = 7, name = ''PlayStation 5'',
      description = Some ''Next-gen gaming console'', category = Some ''Gaming''\<rparr>,
     \<lparr>item_id = 8, name = ''Logitech MX Master 3S'',
      description = Some ''Ergonomic productivity mouse'', category = Some ''Accessories''\<rparr>,
     \<lparr>item_id = 9, name = ''Keychron K2'',
      description = Some ''Mechanical wireless keyboard'', category = Some ''Accessories''\<rparr>,
     \<lparr>item_id = 10, name = ''Kindle Paperwhite'',
      description = Some ''E-reader for book lovers'', category = Some ''Electronics''\<rparr>]"
  by (simp add: seeded_items_def seed_def seedData_def insert_run_def)

lemmas store_eval =
  search_handler_def stmt_all_def returned_rows_def seeded_db_def seeded_items_eq search_sql_def
  row_selected_def literal_match_def literal_substring_def sublist_code(3)
  like_Cons_if ascii_lower_Char trim_def is_js_whitespace_def

section \<open>The suggestion endpoint: what it answers\<close>




text \<open>
  C2, as stated, fails: the handler tests the length of the text as received and does
  not trim it. The text of a blank and a letter has trimmed length 1, yet the statement
  is run with the pattern \<open>% a%\<close> and three rows are returned.
\<close>

theorem search_untrimmed_counterexample:
  "length (trim '' a'') < 2 \<and>
   search_handler seeded_db (Some '' a'') =
     (Inr \<lparr>status = Num 200,
           body = JArray [seeded_items ! 0, seeded_items ! 1, seeded_items ! 4]\<rparr>,
      [StoreQuery search_sql [''% a%'', ''% a%'']])"
  by (simp add: store_eval del: like.simps(3))

text \<open>
  C2, amended: for every request whose parameter \<open>q\<close> is absent or has fewer than 2
  characters as received (untrimmed), the endpoint answers 200 with the empty array and
  runs nothing on the store, whatever state the store is in.
\<close>

theorem search_short_query:
  assumes "case q of None \<Rightarrow> True | Some t \<Rightarrow> length t < 2"
  shows "search_handler db q = (Inr \<lparr>status = Num 200, body = JArray []\<rparr>, [])"
  using assms by (auto simp: search_handler_def split: option.splits)

theorem search_short_query_witness:
  "(case Some ''a'' of None \<Rightarrow> True | Some t \<Rightarrow> length t < 2) \<and>
   search_handler seeded_db (Some ''a'') = (Inr \<lparr>status = Num 200, body = JArray []\<rparr>, []) \<and>
   search_handler (seeded_db\<lparr>fault := Some ''SQLITE_IOERR: disk I/O error''\<rparr>) None =
     (Inr \<lparr>status = Num 200, body = JArray []\<rparr>, [])"
proof -
  have h: "case Some ''a'' of None \<Rightarrow> True | Some t \<Rightarrow> length t < 2" by simp
  have n: "case (None :: string option) of None \<Rightarrow> True | Some t \<Rightarrow> length t < 2" by simp
  show ?thesis
    using h search_short_query [OF h, of seeded_db]
      search_short_query [OF n, of "seeded_db\<lparr>fault := Some ''SQLITE_IOERR: disk I/O error''\<rparr>"]
    by simp
qed








text \<open>
  C7: whatever the request and the state of the store, a response of the suggestion
  endpoint that carries rows carries at most 5 of them, however many rows match.
\<close>

theorem search_at_most_five:
  assumes "search_handler db q = (Inr r, fx)" "body r = JArray xs"
  shows "length xs \<le> 5"
  using assms
  by (auto simp: search_handler_def stmt_all_def split: option.splits if_splits sum.splits)

theorem search_at_most_five_witness:
  "search_handler seeded_db (Some ''on'') =
     (Inr \<lparr>status = Num 200,
           body = JArray [seeded_items ! 0, seeded_items ! 1, seeded_items ! 2,
                          seeded_items ! 3, seeded_items ! 5]\<rparr>,
      [StoreQuery search_sql [''%on%'', ''%on%'']]) \<and>
   length (filter (row_selected ''%on%'' ''%on%'') (rows seeded_db)) = 8 \<and>
   length [seeded_items ! 0, seeded_items ! 1, seeded_items ! 2,
           seeded_items ! 3, seeded_items ! 5] \<le> 5"
proof -
  have h: "search_handler seeded_db (Some ''on'') =
     (Inr \<lparr>status = Num 200,
           body = JArray [seeded_items ! 0, seeded_items ! 1, seeded_items ! 2,
                          seeded_items ! 3, seeded_items ! 5]\<rparr>,
      [StoreQuery search_sql [''%on%'', ''%on%'']])"
    by (simp add: store_eval del: like.simps(3))
  have n: "length (filter (row_selected ''%on%'' ''%on%'') (rows seeded_db)) = 8"
    by (simp add: store_eval del: like.simps(3))
  from search_at_most_five [OF h] h n show ?thesis by simp
qed

text \<open>
  C8: when the store raises a fault while the search statement is prepared or run
  (which needs a text of at least 2 characters, or the store is not touched), the
  endpoint catches it and answers 500 with the fixed body
  \<open>{error: "Internal server error"}\<close>; the fault's detail goes to the server log and
  nowhere into the response.
\<close>

theorem search_fault_is_generic_500:
  assumes "fault db = Some e" "2 \<le> length t"
  shows "search_handler db (Some t) =
    (Inr \<lparr>status = Num 500, body = JObject [(''error'', ''Internal server error'')]\<rparr>,
     [StoreQuery search_sql [''%'' @ t @ ''%'', ''%'' @ t @ ''%''],
      ConsoleError ''Search error:'' e])"
proof -
  from assms(2) have "t \<noteq> []" "\<not> length t < 2" by auto
  with assms(1) show ?thesis by (simp add: search_handler_def stmt_all_def)
qed

theorem search_fault_is_generic_500_witness:
  "fault (seeded_db\<lparr>fault := Some ''SQLITE_IOERR: disk I/O error''\<rparr>) =
     Some ''SQLITE_IOERR: disk I/O error'' \<and> 2 \<le> length ''mac'' \<and>
   search_handler (seeded_db\<lparr>fault := Some ''SQLITE_IOERR: disk I/O error''\<rparr>) (Some ''mac'') =
    (Inr \<lparr>status = Num 500, body = JObject [(''error'', ''Internal server error'')]\<rparr>,
     [StoreQuery search_sql [''%mac%'', ''%mac%''],
      ConsoleError ''Search error:'' ''SQLITE_IOERR: disk I/O error''])"
proof -
  have f: "fault (seeded_db\<lparr>fault := Some ''SQLITE_IOERR: disk I/O error''\<rparr>) =
     Some ''SQLITE_IOERR: disk I/O error''" by simp
  have l: "2 \<le> length ''mac''" by simp
  from search_fault_is_generic_500 [OF f l] f l show ?thesis by simp
qed

section \<open>The proxy endpoint: what it answers\<close>

lemma replace_escaped_newlines_Nil_iff: "replace_escaped_newlines s = [] \<longleftrightarrow> s = []"
  by (induction s rule: replace_escaped_newlines.induct) auto

lemma falsy_iff: "falsy v \<longleftrightarrow> v = None \<or> v = Some []"
  by (cases v) (auto simp: falsy_def)

lemma sheets_handler_unconfigured:
  assumes "falsy (env ''GOOGLE_SERVICE_ACCOUNT_EMAIL'') \<or> falsy (env ''GOOGLE_PRIVATE_KEY'')"
  shows "sheets_handler env api sid rng = (Inr \<lparr>status = Num 500, body = config_error_body\<rparr>, [])"
proof -
  have "falsy (map_option replace_escaped_newlines (env ''GOOGLE_PRIVATE_KEY'')) \<longleftrightarrow>
        falsy (env ''GOOGLE_PRIVATE_KEY'')"
    by (cases "env ''GOOGLE_PRIVATE_KEY''") (simp_all add: falsy_def replace_escaped_newlines_Nil_iff)
  with assms show ?thesis by (auto simp: sheets_handler_def Let_def)
qed

lemma sheets_handler_configured:
  assumes "env ''GOOGLE_SERVICE_ACCOUNT_EMAIL'' = Some e" "e \<noteq> []"
    and "env ''GOOGLE_PRIVATE_KEY'' = Some k" "k \<noteq> []"
    and "auth = \<lparr>email = e, key = replace_escaped_newlines k,
                 scopes = [''https://www.googleapis.com/auth/spreadsheets.readonly'']\<rparr>"
  shows "sheets_handler env api sid rng =
    (case api auth sid rng of
       Inr data \<Rightarrow>
         (Inr \<lparr>status = Num 200, body = JRaw data\<rparr>, [JwtCreated auth, SheetsGet auth sid rng])
     | Inl error \<Rightarrow>
         (Inr \<lparr>status = code_or (code error) 500, body = upstream_error_body error\<rparr>,
          [JwtCreated auth, SheetsGet auth sid rng,
           ConsoleError ''Sheets proxy error:'' (message error)]))"
  unfolding assms(5) using assms(1-4)
  by (simp add: sheets_handler_def Let_def falsy_def replace_escaped_newlines_Nil_iff)

text \<open>
  C4: a credential is missing when its variable is unset or holds the empty text (the
  test is \<open>!clientEmail || !privateKey\<close>). If the principal identifier or the private
  key is missing, the proxy endpoint answers 500 with the configuration error body,
  which differs from the body of every upstream failure, and it builds no assertion
  client and makes no outbound call. If both are present, it builds the assertion
  client for the read-only scope and goes on to the outbound call.
\<close>

theorem sheets_credentials_gate:
  "(env ''GOOGLE_SERVICE_ACCOUNT_EMAIL'' = None \<or> env ''GOOGLE_SERVICE_ACCOUNT_EMAIL'' = Some [] \<or>
    env ''GOOGLE_PRIVATE_KEY'' = None \<or> env ''GOOGLE_PRIVATE_KEY'' = Some []
    \<longrightarrow> sheets_handler env api sid rng =
          (Inr \<lparr>status = Num 500,
                body = JObject
                  [(''error'', ''Google Service Account credentials not configured on server.''),
                   (''details'',
                    ''Please ensure GOOGLE_SERVICE_ACCOUNT_EMAIL and GOOGLE_PRIVATE_KEY are set.'')]\<rparr>,
           [])) \<and>
   config_error_body \<noteq> upstream_error_body err \<and>
   (env ''GOOGLE_SERVICE_ACCOUNT_EMAIL'' = Some e \<and> e \<noteq> [] \<and>
    env ''GOOGLE_PRIVATE_KEY'' = Some k \<and> k \<noteq> []
    \<longrightarrow> take 2 (snd (sheets_handler env api sid rng)) =
          [JwtCreated \<lparr>email = e, key = replace_escaped_newlines k,
                       scopes = [''https://www.googleapis.com/auth/spreadsheets.readonly'']\<rparr>,
           SheetsGet \<lparr>email = e, key = replace_escaped_newlines k,
                      scopes = [''https://www.googleapis.com/auth/spreadsheets.readonly'']\<rparr>
             sid rng])"
proof (intro conjI impI)
  assume "env ''GOOGLE_SERVICE_ACCOUNT_EMAIL'' = None \<or> env ''GOOGLE_SERVICE_ACCOUNT_EMAIL'' = Some [] \<or>
    env ''GOOGLE_PRIVATE_KEY'' = None \<or> env ''GOOGLE_PRIVATE_KEY'' = Some []"
  then have "falsy (env ''GOOGLE_SERVICE_ACCOUNT_EMAIL'') \<or> falsy (env ''GOOGLE_PRIVATE_KEY'')"
    by (auto simp: falsy_iff)
  then show "sheets_handler env api sid rng =
          (Inr \<lparr>status = Num 500,
                body = JObject
                  [(''error'', ''Google Service Account credentials not configured on server.''),
                   (''details'',
                    ''Please ensure GOOGLE_SERVICE_ACCOUNT_EMAIL and GOOGLE_PRIVATE_KEY are set.'')]\<rparr>,
           [])"
    by (simp add: sheets_handler_unconfigured config_error_body_def)
next
  show "config_error_body \<noteq> upstream_error_body err"
    by (simp add: config_error_body_def upstream_error_body_def)
next
  let ?auth = "\<lparr>email = e, key = replace_escaped_newlines k,
                 scopes = [''https://www.googleapis.com/auth/spreadsheets.readonly'']\<rparr>"
  assume "env ''GOOGLE_SERVICE_ACCOUNT_EMAIL'' = Some e \<and> e \<noteq> [] \<and>
    env ''GOOGLE_PRIVATE_KEY'' = Some k \<and> k \<noteq> []"
  then have "sheets_handler env api sid rng =
    (case api ?auth sid rng of
       Inr data \<Rightarrow>
         (Inr \<lparr>status = Num 200, body = JRaw data\<rparr>, [JwtCreated ?auth, SheetsGet ?auth sid rng])
     | Inl error \<Rightarrow>
         (Inr \<lparr>status = code_or (code error) 500, body = upstream_error_body error\<rparr>,
          [JwtCreated ?auth, SheetsGet ?auth sid rng,
           ConsoleError ''Sheets proxy error:'' (message error)]))"
    by (intro sheets_handler_configured) simp_all
  then show "take 2 (snd (sheets_handler env api sid rng)) =
      [JwtCreated ?auth, SheetsGet ?auth sid rng]"
    by (simp split: sum.splits)
qed


theorem sheets_credentials_gate_witness:
  "(example_env(''GOOGLE_PRIVATE_KEY'' \<mapsto> [])) ''GOOGLE_PRIVATE_KEY'' = Some [] \<and>
   sheets_handler (example_env(''GOOGLE_PRIVATE_KEY'' \<mapsto> [])) not_found_api ''sheet1'' ''A1:B2'' =
     (Inr \<lparr>status = Num 500,
           body = JObject
             [(''error'', ''Google Service Account credentials not configured on server.''),
              (''details'',
               ''Please ensure GOOGLE_SERVICE_ACCOUNT_EMAIL and GOOGLE_PRIVATE_KEY are set.'')]\<rparr>,
      []) \<and>
   (example_env(''GOOGLE_PRIVATE_KEY'' := None)) ''GOOGLE_PRIVATE_KEY'' = None \<and>
   sheets_handler (example_env(''GOOGLE_PRIVATE_KEY'' := None)) not_found_api ''sheet1'' ''A1:B2'' =
     (Inr \<lparr>status = Num 500,
           body = JObject
             [(''error'', ''Google Service Account credentials not configured on server.''),
              (''details'',
               ''Please ensure GOOGLE_SERVICE_ACCOUNT_EMAIL and GOOGLE_PRIVATE_KEY are set.'')]\<rparr>,
      []) \<and>
   example_env ''GOOGLE_SERVICE_ACCOUNT_EMAIL'' = Some ''svc@example.iam.gserviceaccount.com'' \<and>
   ''svc@example.iam.gserviceaccount.com'' \<noteq> [] \<and>
   example_env ''GOOGLE_PRIVATE_KEY'' = Some (''KEY'' @ [CHR 0x5C] @ ''nEND'') \<and>
   ''KEY'' @ [CHR 0x5C] @ ''nEND'' \<noteq> [] \<and>
   take 2 (snd (sheets_handler example_env not_found_api ''sheet1'' ''A1:B2'')) =
     [JwtCreated \<lparr>email = ''svc@example.iam.gserviceaccount.com'',
                  key = ''KEY'' @ [CHR 0x0A] @ ''END'',
                  scopes = [''https://www.googleapis.com/auth/spreadsheets.readonly'']\<rparr>,
      SheetsGet \<lparr>email = ''svc@example.iam.gserviceaccount.com'',
                 key = ''KEY'' @ [CHR 0x0A] @ ''END'',
                 scopes = [''https://www.googleapis.com/auth/spreadsheets.readonly'']\<rparr>
        ''sheet1'' ''A1:B2'']"
proof -
  have a: "(example_env(''GOOGLE_PRIVATE_KEY'' := None)) ''GOOGLE_PRIVATE_KEY'' = None"
    "(example_env(''GOOGLE_PRIVATE_KEY'' \<mapsto> [])) ''GOOGLE_PRIVATE_KEY'' = Some []"
    by simp_all
  have b: "example_env ''GOOGLE_SERVICE_ACCOUNT_EMAIL'' = Some ''svc@example.iam.gserviceaccount.com''"
    "example_env ''GOOGLE_PRIVATE_KEY'' = Some (''KEY'' @ [CHR 0x5C] @ ''nEND'')"
    by (simp_all add: example_env_def)
  have c: "replace_escaped_newlines (''KEY'' @ [CHR 0x5C] @ ''nEND'') = ''KEY'' @ [CHR 0x0A] @ ''END''"
    by simp
  from a b c
    sheets_credentials_gate [of "example_env(''GOOGLE_PRIVATE_KEY'' := None)" not_found_api
      "''sheet1''" "''A1:B2''"]
    sheets_credentials_gate [of "example_env(''GOOGLE_PRIVATE_KEY'' \<mapsto> [])" not_found_api
      "''sheet1''" "''A1:B2''"]
    sheets_credentials_gate [of example_env not_found_api "''sheet1''" "''A1:B2''" _
      "''svc@example.iam.gserviceaccount.com''" "''KEY'' @ [CHR 0x5C] @ ''nEND''"]
  show ?thesis by simp
qed

text \<open>
  For a failure that carries a numeric status the proxy endpoint answers with that
  status, for one that carries no code (or the number 0) with 500, and in both cases
  with the body \<open>{error: "Failed to fetch data from Google Sheets.", message: ...}\<close>.
\<close>

theorem sheets_numeric_failure:
  assumes "env ''GOOGLE_SERVICE_ACCOUNT_EMAIL'' = Some e" "e \<noteq> []"
    and "env ''GOOGLE_PRIVATE_KEY'' = Some k" "k \<noteq> []"
    and "api \<lparr>email = e, key = replace_escaped_newlines k,
              scopes = [''https://www.googleapis.com/auth/spreadsheets.readonly'']\<rparr> sid rng =
         Inl err"
  shows "(code err = Num n \<and> n \<noteq> 0 \<longrightarrow>
            fst (sheets_handler env api sid rng) =
              Inr \<lparr>status = Num n,
                   body = JObject [(''error'', ''Failed to fetch data from Google Sheets.''),
                                   (''message'', message err)]\<rparr>) \<and>
         (code err = Undefined \<or> code err = Num 0 \<longrightarrow>
            fst (sheets_handler env api sid rng) =
              Inr \<lparr>status = Num 500,
                   body = JObject [(''error'', ''Failed to fetch data from Google Sheets.''),
                                   (''message'', message err)]\<rparr>)"
  using sheets_handler_configured [OF assms(1-4) refl, of api sid rng] assms(5)
  by (auto simp: code_or_def upstream_error_body_def)

theorem sheets_numeric_failure_witness:
  "example_env ''GOOGLE_SERVICE_ACCOUNT_EMAIL'' = Some ''svc@example.iam.gserviceaccount.com'' \<and>
   ''svc@example.iam.gserviceaccount.com'' \<noteq> [] \<and>
   example_env ''GOOGLE_PRIVATE_KEY'' = Some (''KEY'' @ [CHR 0x5C] @ ''nEND'') \<and>
   ''KEY'' @ [CHR 0x5C] @ ''nEND'' \<noteq> [] \<and>
   not_found_api \<lparr>email = ''svc@example.iam.gserviceaccount.com'',
                   key = replace_escaped_newlines (''KEY'' @ [CHR 0x5C] @ ''nEND''),
                   scopes = [''https://www.googleapis.com/auth/spreadsheets.readonly'']\<rparr>
     ''sheet1'' ''Z9'' = Inl \<lparr>code = Num 404, message = ''Range not found''\<rparr> \<and>
   fst (sheets_handler example_env not_found_api ''sheet1'' ''Z9'') =
     Inr \<lparr>status = Num 404,
          body = JObject [(''error'', ''Failed to fetch data from Google Sheets.''),
                          (''message'', ''Range not found'')]\<rparr> \<and>
   fst (sheets_handler example_env
          (\<lambda>auth sid rng. Inl \<lparr>code = Undefined, message = ''socket hang up''\<rparr>)
          ''sheet1'' ''Z9'') =
     Inr \<lparr>status = Num 500,
          body = JObject [(''error'', ''Failed to fetch data from Google Sheets.''),
                          (''message'', ''socket hang up'')]\<rparr>"
proof -
  have b: "example_env ''GOOGLE_SERVICE_ACCOUNT_EMAIL'' = Some ''svc@example.iam.gserviceaccount.com''"
    "''svc@example.iam.gserviceaccount.com'' \<noteq> []"
    "example_env ''GOOGLE_PRIVATE_KEY'' = Some (''KEY'' @ [CHR 0x5C] @ ''nEND'')"
    "''KEY'' @ [CHR 0x5C] @ ''nEND'' \<noteq> []"
    by (simp_all add: example_env_def)
  have c: "not_found_api \<lparr>email = ''svc@example.iam.gserviceaccount.com'',
                   key = replace_escaped_newlines (''KEY'' @ [CHR 0x5C] @ ''nEND''),
                   scopes = [''https://www.googleapis.com/auth/spreadsheets.readonly'']\<rparr>
     ''sheet1'' ''Z9'' = Inl \<lparr>code = Num 404, message = ''Range not found''\<rparr>"
    by (simp add: not_found_api_def)
  have d: "(\<lambda>auth sid rng. Inl \<lparr>code = Undefined, message = ''socket hang up''\<rparr> :: js_error + string)
       \<lparr>email = ''svc@example.iam.gserviceaccount.com'',
                   key = replace_escaped_newlines (''KEY'' @ [CHR 0x5C] @ ''nEND''),
                   scopes = [''https://www.googleapis.com/auth/spreadsheets.readonly'']\<rparr>
     ''sheet1'' ''Z9'' = Inl \<lparr>code = Undefined, message = ''socket hang up''\<rparr>"
    by simp
  from b c
    sheets_numeric_failure [where env = example_env and api = not_found_api
      and sid = "''sheet1''" and rng = "''Z9''" and n = 404, OF b c]
    sheets_numeric_failure [where env = example_env
      and api = "\<lambda>auth sid rng. Inl \<lparr>code = Undefined, message = ''socket hang up''\<rparr>"
      and sid = "''sheet1''" and rng = "''Z9''", OF b d]
  show ?thesis by simp
qed


section \<open>The client: what a selection and a burst of changes cause\<close>

lemma elapse_due:
  "timer s = Some (due, q) \<Longrightarrow> due \<le> now s + d \<Longrightarrow>
   elapse d s = fetchSuggestions q (s\<lparr>now := now s + d, timer := None\<rparr>)"
  by (simp add: elapse_def)

lemma requests_fetchSuggestions:
  "requests (fetchSuggestions q s) =
     requests s @ (if 2 \<le> length (trim q) then [fetch_url q] else [])"
  by (simp add: fetchSuggestions_def)

text \<open>
  During a burst nothing is fetched: when it ends, the only pending timeout is the one
  armed by its last change, for the last value.
\<close>

lemma run_burst:
  assumes "distinct_adj (query s # v # map snd r)" "\<forall>(d, w) \<in> set r. d < 300"
  shows "requests (run s (burst v r)) = requests s \<and>
         timer (run s (burst v r)) = Some (now (run s (burst v r)) + 300, last (v # map snd r))"
  using assms
proof (induction r arbitrary: s v)
  case Nil
  then show ?case by (simp add: run_def setQuery_def)
next
  case (Cons dw r)
  obtain d w where dw: "dw = (d, w)" by (cases dw)
  let ?s1 = "elapse d (setQuery v s)"
  from Cons.prems dw have v: "v \<noteq> query s" "v \<noteq> w" "d < 300"
    and rest: "distinct_adj (v # w # map snd r)" "\<forall>(d, w) \<in> set r. d < 300"
    by auto
  have s1: "?s1 = s\<lparr>query := v, timer := Some (now s + 300, v), now := now s + d\<rparr>"
    using v by (simp add: setQuery_def elapse_def)
  then have "query ?s1 = v" "requests ?s1 = requests s" by simp_all
  with Cons.IH [of ?s1 w] rest
  have "requests (run ?s1 (burst w r)) = requests s \<and>
        timer (run ?s1 (burst w r)) = Some (now (run ?s1 (burst w r)) + 300, last (w # map snd r))"
    by simp
  moreover have "run s (burst v (dw # r)) = run ?s1 (burst w r)"
    by (simp add: dw run_def)
  ultimately show ?case by (simp add: dw)
qed

text \<open>
  C9, as stated, fails: a burst whose final value has fewer than 2 characters after
  trimming makes no network call at all. Typing \<open>ab\<close> and deleting the \<open>b\<close> 100 time
  units later leaves \<open>a\<close>; after the quiet period no request has been made.
\<close>

theorem debounce_burst_counterexample:
  "requests (run mounted (burst ''ab'' [(100, ''a'')] @ [Elapse 300])) = []"
  by (simp add: run_def mounted_def setQuery_def elapse_def fetchSuggestions_def
        trim_def is_js_whitespace_def)

text \<open>
  C9, amended. Take a burst of input changes, each a real change of the text and each
  less than 300 time units after the one before, followed by a quiet period of at least
  300. If the final value has at least 2 characters after trimming, exactly one
  suggestion network call is made, and it carries the final value; if it has fewer,
  none is made. Each change replaces the pending timeout by one for its own value, due
  300 after it.
\<close>

theorem debounce_burst:
  assumes "distinct_adj (query s # v # map snd r)" "\<forall>(d, w) \<in> set r. d < 300" "300 \<le> D"
  shows "requests (run s (burst v r @ [Elapse D])) =
           requests s @ (if 2 \<le> length (trim (last (v # map snd r)))
                         then [fetch_url (last (v # map snd r))] else []) \<and>
         timer (step s (Change v)) = Some (now s + 300, v)"
proof
  let ?s' = "run s (burst v r)"
  from run_burst [OF assms(1,2)]
  have r: "requests ?s' = requests s"
    and t: "timer ?s' = Some (now ?s' + 300, last (v # map snd r))" by simp_all
  have "run s (burst v r @ [Elapse D]) = elapse D ?s'"
    by (simp add: run_def)
  also have "\<dots> = fetchSuggestions (last (v # map snd r)) (?s'\<lparr>now := now ?s' + D, timer := None\<rparr>)"
    using elapse_due [OF t, of D] assms(3) by simp
  finally show "requests (run s (burst v r @ [Elapse D])) =
           requests s @ (if 2 \<le> length (trim (last (v # map snd r)))
                         then [fetch_url (last (v # map snd r))] else [])"
    using r by (simp add: requests_fetchSuggestions)
next
  from assms(1) have "v \<noteq> query s" by auto
  then show "timer (step s (Change v)) = Some (now s + 300, v)"
    by (simp add: setQuery_def)
qed

theorem debounce_burst_witness:
  "distinct_adj (query mounted # ''m'' # map snd [(120 :: nat, ''ma''), (90, ''mac'')]) \<and>
   list_all (\<lambda>(d, w). d < 300) [(120 :: nat, ''ma''), (90, ''mac'')] \<and> (300 :: nat) \<le> 300 \<and>
   requests (run mounted (burst ''m'' [(120, ''ma''), (90, ''mac'')] @ [Elapse 300])) =
     [''/api/search?q=mac''] \<and>
   timer (step mounted (Change ''m'')) = Some (300, ''m'')"
proof -
  have a: "distinct_adj (query mounted # ''m'' # map snd [(120 :: nat, ''ma''), (90, ''mac'')])"
    by (simp add: mounted_def)
  have b: "\<forall>(d, w) \<in> set [(120, ''ma''), (90 :: nat, ''mac'')]. d < 300" by simp
  have c: "(300 :: nat) \<le> 300" by simp
  have u: "fetch_url ''mac'' = ''/api/search?q=mac''"
    by (simp add: fetch_url_def encodeURIComponent_def encode_unit_def uriUnreserved_def)
  have t: "2 \<le> length (trim ''mac'')" by (simp add: trim_def is_js_whitespace_def)
  from a b c u t debounce_burst [OF a b c] show ?thesis by (simp add: mounted_def)
qed





section \<open>The request URL: what the receiving side reads back\<close>





















section \<open>Further properties of the endpoints and the client\<close>

text \<open>
  The proxy passes a successful upstream answer through: with both credentials present
  and a call that returns, the response is 200 with the payload as it came, after the
  assertion client was built and the one call was made.
\<close>

theorem sheets_pass_through:
  assumes "env ''GOOGLE_SERVICE_ACCOUNT_EMAIL'' = Some e" "e \<noteq> []"
    and "env ''GOOGLE_PRIVATE_KEY'' = Some k" "k \<noteq> []"
    and "api \<lparr>email = e, key = replace_escaped_newlines k,
              scopes = [''https://www.googleapis.com/auth/spreadsheets.readonly'']\<rparr> sid rng =
         Inr payload"
  shows "sheets_handler env api sid rng =
    (Inr \<lparr>status = Num 200, body = JRaw payload\<rparr>,
     [JwtCreated \<lparr>email = e, key = replace_escaped_newlines k,
                  scopes = [''https://www.googleapis.com/auth/spreadsheets.readonly'']\<rparr>,
      SheetsGet \<lparr>email = e, key = replace_escaped_newlines k,
                 scopes = [''https://www.googleapis.com/auth/spreadsheets.readonly'']\<rparr>
        sid rng])"
  using sheets_handler_configured [OF assms(1-4) refl, of api sid rng] assms(5) by simp

theorem sheets_pass_through_witness:
  "example_env ''GOOGLE_SERVICE_ACCOUNT_EMAIL'' = Some ''svc@example.iam.gserviceaccount.com'' \<and>
   ''svc@example.iam.gserviceaccount.com'' \<noteq> [] \<and>
   example_env ''GOOGLE_PRIVATE_KEY'' = Some (''KEY'' @ [CHR 0x5C] @ ''nEND'') \<and>
   ''KEY'' @ [CHR 0x5C] @ ''nEND'' \<noteq> [] \<and>
   sheets_handler example_env (\<lambda>auth sid rng. Inr ''[[1,2],[3,4]]'') ''sheet1'' ''A1'' =
    (Inr \<lparr>status = Num 200, body = JRaw ''[[1,2],[3,4]]''\<rparr>,
     [JwtCreated \<lparr>email = ''svc@example.iam.gserviceaccount.com'',
                  key = ''KEY'' @ [CHR 0x0A] @ ''END'',
                  scopes = [''https://www.googleapis.com/auth/spreadsheets.readonly'']\<rparr>,
      SheetsGet \<lparr>email = ''svc@example.iam.gserviceaccount.com'',
                 key = ''KEY'' @ [CHR 0x0A] @ ''END'',
                 scopes = [''https://www.googleapis.com/auth/spreadsheets.readonly'']\<rparr>
        ''sheet1'' ''A1''])"
proof -
  have b: "example_env ''GOOGLE_SERVICE_ACCOUNT_EMAIL'' = Some ''svc@example.iam.gserviceaccount.com''"
    "''svc@example.iam.gserviceaccount.com'' \<noteq> []"
    "example_env ''GOOGLE_PRIVATE_KEY'' = Some (''KEY'' @ [CHR 0x5C] @ ''nEND'')"
    "''KEY'' @ [CHR 0x5C] @ ''nEND'' \<noteq> []"
    by (simp_all add: example_env_def)
  have d: "(\<lambda>auth sid rng. Inr ''[[1,2],[3,4]]'' :: js_error + string)
       \<lparr>email = ''svc@example.iam.gserviceaccount.com'',
                   key = replace_escaped_newlines (''KEY'' @ [CHR 0x5C] @ ''nEND''),
                   scopes = [''https://www.googleapis.com/auth/spreadsheets.readonly'']\<rparr>
     ''sheet1'' ''A1'' = Inr ''[[1,2],[3,4]]''"
    by simp
  from b
    sheets_pass_through [where env = example_env
      and api = "\<lambda>auth sid rng. Inr ''[[1,2],[3,4]]''"
      and sid = "''sheet1''" and rng = "''A1''", OF b d]
  show ?thesis by simp
qed

text \<open>
  In the client, a text shorter than 2 characters after trimming clears the suggestions
  locally and makes no network call when its timeout fires.
\<close>

theorem short_input_clears_locally:
  assumes "length (trim q) < 2"
  shows "suggestions (fetchSuggestions q s) = [] \<and> requests (fetchSuggestions q s) = requests s \<and>
         inflight (fetchSuggestions q s) = inflight s"
  using assms by (simp add: fetchSuggestions_def)

theorem short_input_clears_locally_witness:
  "length (trim '' a '') < 2 \<and>
   suggestions (fetchSuggestions '' a '' (mounted\<lparr>suggestions := seeded_items\<rparr>)) = [] \<and>
   requests (fetchSuggestions '' a '' (mounted\<lparr>suggestions := seeded_items\<rparr>)) = []"
proof -
  have t: "length (trim '' a '') < 2" by (simp add: trim_def is_js_whitespace_def)
  from t short_input_clears_locally [OF t, of "mounted\<lparr>suggestions := seeded_items\<rparr>"]
  show ?thesis by (simp add: mounted_def)
qed

end
